theory Spec2Isabelle
  imports Complex_Main "HOL-Library.Sublist"
begin

section \<open>The benchmark notebook\<close>

text \<open>
  The code cell of \<^verbatim>\<open>benchmark.ipynb\<close> defines two enumerations, six
  service functions and the driver \<^verbatim>\<open>run_benchmark\<close>. The six service
  functions are placeholders returning fixed values; the driver awaits them one
  after the other, so a run is a sequence of calls. Python floats are modelled
  as real numbers, Python's \<^verbatim>\<open>str\<close> as \<open>string\<close>.
\<close>

subsection \<open>Types\<close>

datatype ChunkingMethod = UNSTRUCTURED | AI21 | CUSTOM

datatype VectorDB = PINECONE | ASTRA

text \<open>The \<^verbatim>\<open>.value\<close> of an enumeration member.\<close>

fun method_value :: "ChunkingMethod \<Rightarrow> string" where
  "method_value UNSTRUCTURED = ''unstructured''"
| "method_value AI21 = ''ai21''"
| "method_value CUSTOM = ''custom''"

fun db_value :: "VectorDB \<Rightarrow> string" where
  "db_value PINECONE = ''pinecone''"
| "db_value ASTRA = ''astra''"

text \<open>
  An exception leaving a call: the division of line 102 raises
  \<^verbatim>\<open>ZeroDivisionError\<close>; anything a service raises is \<open>ServiceError\<close>
  with the name of the exception.
\<close>

datatype exn = ZeroDivisionError | ServiceError string

subsection \<open>The six placeholder functions (lines 58 to 79)\<close>

definition chunk_text :: "string \<Rightarrow> ChunkingMethod \<Rightarrow> string list" where
  "chunk_text text method = [''chunk1'', ''chunk2'', ''chunk3'']"

text \<open>Decimal digits of a natural number, as \<^verbatim>\<open>str(n)\<close> and an f-string print them.\<close>

fun str_nat :: "nat \<Rightarrow> string" where
  "str_nat n =
     (if n < 10 then [''0123456789'' ! n]
      else str_nat (n div 10) @ [''0123456789'' ! (n mod 10)])"

text \<open>
  \<^verbatim>\<open>save_chunks_to_vector_db\<close> stores nothing: it prints one line. The
  standard output is the list of lines printed so far.
\<close>

definition save_chunks_to_vector_db :: "string list \<Rightarrow> VectorDB \<Rightarrow> string list \<Rightarrow> string list" where
  "save_chunks_to_vector_db chunks db out =
     out @ [''Saving '' @ str_nat (length chunks) @ '' chunks to '' @ db_value db]"

definition generate_questions :: "string \<Rightarrow> int \<Rightarrow> string list" where
  "generate_questions text num_questions = [''Question 1?'', ''Question 2?'', ''Question 3?'']"

definition retrieve_relevant_chunks :: "string \<Rightarrow> VectorDB \<Rightarrow> int \<Rightarrow> string list" where
  "retrieve_relevant_chunks question db top_k = [''relevant chunk 1'', ''relevant chunk 2'']"

definition generate_answer :: "string \<Rightarrow> string list \<Rightarrow> string" where
  "generate_answer question context = ''Generated answer based on context''"

definition evaluate_answer :: "string \<Rightarrow> string \<Rightarrow> real" where
  "evaluate_answer generated_answer correct_answer = 0.85"

subsection \<open>The driver (lines 82 to 104)\<close>

text \<open>
  Every \<^verbatim>\<open>await\<close> of the driver is a call that may change the world outside
  (a vector store, a language model, the standard output) and may raise. The
  driver is therefore written over a record of the six services it awaits, each
  a function from the world before the call to an exception or the returned
  value and the world after it. The driver has no \<^verbatim>\<open>try\<close>: an exception
  leaves \<^verbatim>\<open>run_benchmark\<close>.
\<close>

record 'w services =
  svc_chunk_text :: "string \<Rightarrow> ChunkingMethod \<Rightarrow> 'w \<Rightarrow> exn + (string list \<times> 'w)"
  svc_save_chunks :: "string list \<Rightarrow> VectorDB \<Rightarrow> 'w \<Rightarrow> exn + (unit \<times> 'w)"
  svc_generate_questions :: "string \<Rightarrow> int \<Rightarrow> 'w \<Rightarrow> exn + (string list \<times> 'w)"
  svc_retrieve :: "string \<Rightarrow> VectorDB \<Rightarrow> int \<Rightarrow> 'w \<Rightarrow> exn + (string list \<times> 'w)"
  svc_generate_answer :: "string \<Rightarrow> string list \<Rightarrow> 'w \<Rightarrow> exn + (string \<times> 'w)"
  svc_evaluate_answer :: "string \<Rightarrow> string \<Rightarrow> 'w \<Rightarrow> exn + (real \<times> 'w)"

text \<open>Lines 86 to 88: chunk the text with every method and save the chunks.\<close>

fun chunk_and_save :: "'w services \<Rightarrow> string \<Rightarrow> VectorDB \<Rightarrow> ChunkingMethod list \<Rightarrow> 'w \<Rightarrow> exn + 'w" where
  "chunk_and_save svc text vector_db [] w = Inr w"
| "chunk_and_save svc text vector_db (method # methods) w =
     (case svc_chunk_text svc text method w of
        Inl e \<Rightarrow> Inl e
      | Inr (chunks, w1) \<Rightarrow>
          (case svc_save_chunks svc chunks vector_db w1 of
             Inl e \<Rightarrow> Inl e
           | Inr (u, w2) \<Rightarrow> chunk_and_save svc text vector_db methods w2))"

text \<open>
  Lines 97 to 99: one question is answered and graded. The retrieval is called
  without \<^verbatim>\<open>top_k\<close>, so with its default 3; the grader is given the literal
  \<^verbatim>\<open>"correct_answer"\<close>.
\<close>

definition evaluate_question :: "'w services \<Rightarrow> VectorDB \<Rightarrow> string \<Rightarrow> 'w \<Rightarrow> exn + (real \<times> 'w)" where
  "evaluate_question svc vector_db question w =
     (case svc_retrieve svc question vector_db 3 w of
        Inl e \<Rightarrow> Inl e
      | Inr (relevant_chunks, w1) \<Rightarrow>
          (case svc_generate_answer svc question relevant_chunks w1 of
             Inl e \<Rightarrow> Inl e
           | Inr (answer, w2) \<Rightarrow> svc_evaluate_answer svc answer ''correct_answer'' w2))"

text \<open>Lines 96 to 100: the loop over the questions, appending to \<^verbatim>\<open>method_scores\<close>.\<close>

fun score_questions :: "'w services \<Rightarrow> VectorDB \<Rightarrow> string list \<Rightarrow> real list \<Rightarrow> 'w \<Rightarrow> exn + (real list \<times> 'w)" where
  "score_questions svc vector_db [] method_scores w = Inr (method_scores, w)"
| "score_questions svc vector_db (question # questions) method_scores w =
     (case evaluate_question svc vector_db question w of
        Inl e \<Rightarrow> Inl e
      | Inr (score, w1) \<Rightarrow> score_questions svc vector_db questions (method_scores @ [score]) w1)"

text \<open>
  Line 102: \<^verbatim>\<open>sum(method_scores) / len(method_scores)\<close>. On the empty list
  this is \<^verbatim>\<open>0 / 0\<close>, which raises.
\<close>

definition mean_score :: "real list \<Rightarrow> exn + real" where
  "mean_score method_scores =
     (if length method_scores = 0 then Inl ZeroDivisionError
      else Inr (sum_list method_scores / real (length method_scores)))"

text \<open>
  Lines 94 to 102: the loop over the methods; \<^verbatim>\<open>results\<close> is the dictionary
  from a method's value to its mean score.
\<close>

fun evaluate_methods :: "'w services \<Rightarrow> VectorDB \<Rightarrow> string list \<Rightarrow> ChunkingMethod list \<Rightarrow>
    (string \<rightharpoonup> real) \<Rightarrow> 'w \<Rightarrow> exn + ((string \<rightharpoonup> real) \<times> 'w)" where
  "evaluate_methods svc vector_db questions [] results w = Inr (results, w)"
| "evaluate_methods svc vector_db questions (method # methods) results w =
     (case score_questions svc vector_db questions [] w of
        Inl e \<Rightarrow> Inl e
      | Inr (method_scores, w1) \<Rightarrow>
          (case mean_score method_scores of
             Inl e \<Rightarrow> Inl e
           | Inr mean \<Rightarrow>
               evaluate_methods svc vector_db questions methods
                 (results(method_value method \<mapsto> mean)) w1))"

definition run_benchmark_with :: "'w services \<Rightarrow> string \<Rightarrow> ChunkingMethod list \<Rightarrow> VectorDB \<Rightarrow> 'w \<Rightarrow>
    exn + ((string \<rightharpoonup> real) \<times> 'w)" where
  "run_benchmark_with svc text chunking_methods vector_db w =
     (case chunk_and_save svc text vector_db chunking_methods w of
        Inl e \<Rightarrow> Inl e
      | Inr w1 \<Rightarrow>
          (case svc_generate_questions svc text 10 w1 of
             Inl e \<Rightarrow> Inl e
           | Inr (questions, w2) \<Rightarrow>
               evaluate_methods svc vector_db questions chunking_methods Map.empty w2))"

text \<open>
  The notebook's own services: the six placeholders. None of them raises; only
  \<^verbatim>\<open>save_chunks_to_vector_db\<close> touches the world, which is the standard output.
\<close>

definition notebook_services :: "string list services" where
  "notebook_services =
     \<lparr> svc_chunk_text = (\<lambda>text method out. Inr (chunk_text text method, out)),
       svc_save_chunks = (\<lambda>chunks db out. Inr ((), save_chunks_to_vector_db chunks db out)),
       svc_generate_questions = (\<lambda>text n out. Inr (generate_questions text n, out)),
       svc_retrieve = (\<lambda>question db top_k out. Inr (retrieve_relevant_chunks question db top_k, out)),
       svc_generate_answer = (\<lambda>question context out. Inr (generate_answer question context, out)),
       svc_evaluate_answer = (\<lambda>answer correct out. Inr (evaluate_answer answer correct, out)) \<rparr>"

definition run_benchmark :: "string \<Rightarrow> ChunkingMethod list \<Rightarrow> VectorDB \<Rightarrow> string list \<Rightarrow>
    exn + ((string \<rightharpoonup> real) \<times> string list)" where
  "run_benchmark = run_benchmark_with notebook_services"

text \<open>The input of the notebook's second code cell (lines 113 to 115).\<close>

definition notebook_text :: string where
  "notebook_text = ''Long piece of fiction text...''"

definition notebook_methods :: "ChunkingMethod list" where
  "notebook_methods = [UNSTRUCTURED, AI21, CUSTOM]"

subsection \<open>Scenario services\<close>

text \<open>
  The placeholders return the same values in every run. To run the driver on a
  scenario in which the question list, the grades or a failure are given, these
  services keep the placeholders but return the question list \<open>qs\<close> and let the
  grader read its outcomes, a grade or an exception, from a script in the
  world; once the script is used up the grader is the placeholder again.
\<close>

definition scenario_services :: "string list \<Rightarrow> (string list \<times> (exn + real) list) services" where
  "scenario_services qs =
     \<lparr> svc_chunk_text = (\<lambda>text method w. Inr (chunk_text text method, w)),
       svc_save_chunks = (\<lambda>chunks db (out, script).
         Inr ((), (save_chunks_to_vector_db chunks db out, script))),
       svc_generate_questions = (\<lambda>text n w. Inr (qs, w)),
       svc_retrieve = (\<lambda>question db top_k w. Inr (retrieve_relevant_chunks question db top_k, w)),
       svc_generate_answer = (\<lambda>question context w. Inr (generate_answer question context, w)),
       svc_evaluate_answer = (\<lambda>answer correct (out, script).
         (case script of
            [] \<Rightarrow> Inr (evaluate_answer answer correct, (out, []))
          | Inl e # rest \<Rightarrow> Inl e
          | Inr score # rest \<Rightarrow> Inr (score, (out, rest)))) \<rparr>"

definition three_questions :: "string list" where
  "three_questions = [''Question 1?'', ''Question 2?'', ''Question 3?'']"

subsection \<open>Observing the calls of a run\<close>

text \<open>
  To speak about which calls a run makes, in which order and with which
  arguments, a service record is wrapped so that every call that returns is
  reported, with its arguments and its result, to an observer that keeps a
  state of its own beside the world. The wrapper changes neither the results
  nor the world of the wrapped services. Keeping the list of the calls gives
  the trace of a run; adding up a price per call gives its metered cost.
\<close>

datatype event =
    ChunkText string ChunkingMethod "string list"
  | SaveChunks "string list" VectorDB
  | GenerateQuestions string int "string list"
  | Retrieve string VectorDB int "string list"
  | GenerateAnswer string "string list" string
  | EvaluateAnswer string string real

definition observe :: "(event \<Rightarrow> 'g \<Rightarrow> 'g) \<Rightarrow> ('a \<Rightarrow> event) \<Rightarrow> 'g \<Rightarrow> exn + ('a \<times> 'w) \<Rightarrow>
    exn + ('a \<times> ('w \<times> 'g))" where
  "observe obs ev g r =
     (case r of Inl e \<Rightarrow> Inl e | Inr (x, w') \<Rightarrow> Inr (x, (w', obs (ev x) g)))"

definition observed :: "(event \<Rightarrow> 'g \<Rightarrow> 'g) \<Rightarrow> 'w services \<Rightarrow> ('w \<times> 'g) services" where
  "observed obs svc =
     \<lparr> svc_chunk_text = (\<lambda>text method (w, g).
         observe obs (ChunkText text method) g (svc_chunk_text svc text method w)),
       svc_save_chunks = (\<lambda>chunks db (w, g).
         observe obs (\<lambda>u. SaveChunks chunks db) g (svc_save_chunks svc chunks db w)),
       svc_generate_questions = (\<lambda>text n (w, g).
         observe obs (GenerateQuestions text n) g (svc_generate_questions svc text n w)),
       svc_retrieve = (\<lambda>question db top_k (w, g).
         observe obs (Retrieve question db top_k) g (svc_retrieve svc question db top_k w)),
       svc_generate_answer = (\<lambda>question context (w, g).
         observe obs (GenerateAnswer question context) g
           (svc_generate_answer svc question context w)),
       svc_evaluate_answer = (\<lambda>answer correct (w, g).
         observe obs (EvaluateAnswer answer correct) g
           (svc_evaluate_answer svc answer correct w)) \<rparr>"

definition logged :: "'w services \<Rightarrow> ('w \<times> event list) services" where
  "logged svc = observed (\<lambda>e tr. tr @ [e]) svc"

definition metered :: "(event \<Rightarrow> real) \<Rightarrow> 'w services \<Rightarrow> ('w \<times> real) services" where
  "metered price svc = observed (\<lambda>e cost. cost + price e) svc"

text \<open>The name of the function an event is a call of.\<close>

fun callee :: "event \<Rightarrow> string" where
  "callee (ChunkText t m cs) = ''chunk_text''"
| "callee (SaveChunks cs db) = ''save_chunks_to_vector_db''"
| "callee (GenerateQuestions t n qs) = ''generate_questions''"
| "callee (Retrieve q db k cs) = ''retrieve_relevant_chunks''"
| "callee (GenerateAnswer q cs a) = ''generate_answer''"
| "callee (EvaluateAnswer a c s) = ''evaluate_answer''"

definition chunking_calls :: "string list" where
  "chunking_calls = [''chunk_text'', ''save_chunks_to_vector_db'']"

definition evaluation_calls :: "string list" where
  "evaluation_calls = [''retrieve_relevant_chunks'', ''generate_answer'', ''evaluate_answer'']"

text \<open>
  What a trace says about one kind of call: the question generations with their
  returned lists, the chunkings with their returned chunks, the saves and the
  retrieval queries with their arguments.
\<close>

fun generated :: "event \<Rightarrow> (string \<times> int \<times> string list) option" where
  "generated (GenerateQuestions t n qs) = Some (t, n, qs)"
| "generated e = None"

fun chunked :: "event \<Rightarrow> (string \<times> ChunkingMethod \<times> string list) option" where
  "chunked (ChunkText t m cs) = Some (t, m, cs)"
| "chunked e = None"

fun saved :: "event \<Rightarrow> (string list \<times> VectorDB) option" where
  "saved (SaveChunks cs db) = Some (cs, db)"
| "saved e = None"

fun queried :: "event \<Rightarrow> (string \<times> VectorDB \<times> int) option" where
  "queried (Retrieve q db k cs) = Some (q, db, k)"
| "queried e = None"

text \<open>The events of the placeholders: what chunking with one method and what
  answering one question add to the trace of a run of the notebook.\<close>

definition chunking_events :: "string \<Rightarrow> VectorDB \<Rightarrow> ChunkingMethod \<Rightarrow> event list" where
  "chunking_events text db m =
     [ChunkText text m (chunk_text text m), SaveChunks (chunk_text text m) db]"

definition evaluation_events :: "VectorDB \<Rightarrow> string \<Rightarrow> event list" where
  "evaluation_events db q =
     [Retrieve q db 3 (retrieve_relevant_chunks q db 3),
      GenerateAnswer q (retrieve_relevant_chunks q db 3)
        (generate_answer q (retrieve_relevant_chunks q db 3)),
      EvaluateAnswer (generate_answer q (retrieve_relevant_chunks q db 3)) ''correct_answer''
        (evaluate_answer (generate_answer q (retrieve_relevant_chunks q db 3)) ''correct_answer'')]"

subsection \<open>Reading the outcome of a run\<close>

text \<open>The entry of the returned table under a key (none when the run raised), and
  the trace of a logged run (empty when the run raised).\<close>

definition table_entry :: "exn + ((string \<rightharpoonup> real) \<times> 'w) \<Rightarrow> string \<Rightarrow> real option" where
  "table_entry r k = (case r of Inl e \<Rightarrow> None | Inr (results, w) \<Rightarrow> results k)"

definition trace_of :: "exn + ('a \<times> ('w \<times> event list)) \<Rightarrow> event list" where
  "trace_of r = (case r of Inl e \<Rightarrow> [] | Inr (x, (w, tr)) \<Rightarrow> tr)"

text \<open>A meter that charges the same price for every call.\<close>

definition flat_price :: "real \<Rightarrow> event \<Rightarrow> real" where
  "flat_price p e = p"

text \<open>The grades of the two-strategy scenario, in the order the grader is called:
  three for the first strategy, three for the second.\<close>

definition scenario_grades :: "(exn + real) list" where
  "scenario_grades = [Inr 0.9, Inr 0.2, Inr 0.7, Inr 0.5, Inr 0.5, Inr 0.5]"

text \<open>The same, with the grader failing on the first question of the second strategy.\<close>

definition failing_grades :: "(exn + real) list" where
  "failing_grades = [Inr 0.9, Inr 0.2, Inr 0.7, Inl (ServiceError ''GradingError''), Inr 0.5, Inr 0.5]"

text \<open>
  The grade an event carries, and the grades of the strategy number \<open>i\<close> (counted from
  0) among the grades \<open>gs\<close> of a run with \<open>n\<close> questions: the driver grades the questions
  strategy after strategy, so they are the \<open>n\<close> grades after the first \<open>i * n\<close>.
\<close>

fun graded :: "event \<Rightarrow> real option" where
  "graded (EvaluateAnswer a c s) = Some s"
| "graded e = None"

definition strategy_grades :: "nat \<Rightarrow> nat \<Rightarrow> real list \<Rightarrow> real list" where
  "strategy_grades n i gs = take n (drop (i * n) gs)"

text \<open>
  Services for a run in which a step fails: the placeholders, except that the retrieval
  raises on the questions of \<open>bad_retrieval\<close> and the answer generation on those of
  \<open>bad_generation\<close>.
\<close>

definition faulty_services :: "string list \<Rightarrow> string list \<Rightarrow> string list services" where
  "faulty_services bad_retrieval bad_generation =
     \<lparr> svc_chunk_text = (\<lambda>text method out. Inr (chunk_text text method, out)),
       svc_save_chunks = (\<lambda>chunks db out. Inr ((), save_chunks_to_vector_db chunks db out)),
       svc_generate_questions = (\<lambda>text n out. Inr (generate_questions text n, out)),
       svc_retrieve = (\<lambda>question db top_k out.
         if question \<in> set bad_retrieval then Inl (ServiceError ''RetrievalError'')
         else Inr (retrieve_relevant_chunks question db top_k, out)),
       svc_generate_answer = (\<lambda>question context out.
         if question \<in> set bad_generation then Inl (ServiceError ''GenerationError'')
         else Inr (generate_answer question context, out)),
       svc_evaluate_answer = (\<lambda>answer correct out. Inr (evaluate_answer answer correct, out)) \<rparr>"

section \<open>Properties\<close>

subsection \<open>Observing does not change a run\<close>

lemma chunk_and_save_observed:
  "(case chunk_and_save (observed obs svc) text db ms (w, g) of
      Inl e \<Rightarrow> Inl e | Inr (w', g') \<Rightarrow> Inr w') = chunk_and_save svc text db ms w"
  by (induction ms arbitrary: w g)
     (auto simp: observed_def observe_def split: sum.splits prod.splits)

lemma evaluate_question_observed:
  "(case evaluate_question (observed obs svc) db q (w, g) of
      Inl e \<Rightarrow> Inl e | Inr (s, (w', g')) \<Rightarrow> Inr (s, w')) = evaluate_question svc db q w"
  by (auto simp: evaluate_question_def observed_def observe_def split: sum.splits prod.splits)

lemma score_questions_observed:
  "(case score_questions (observed obs svc) db qs scores (w, g) of
      Inl e \<Rightarrow> Inl e | Inr (s, (w', g')) \<Rightarrow> Inr (s, w')) = score_questions svc db qs scores w"
proof (induction qs arbitrary: scores w g)
  case Nil
  show ?case by simp
next
  case (Cons q qs)
  show ?case
  proof (cases "evaluate_question (observed obs svc) db q (w, g)")
    case (Inl e)
    have "evaluate_question svc db q w = Inl e"
      using evaluate_question_observed [of obs svc db q w g] Inl by simp
    then show ?thesis
      using Inl by simp
  next
    case (Inr r)
    obtain s w1 g1 where r: "r = (s, (w1, g1))" by (cases r) auto
    have "evaluate_question svc db q w = Inr (s, w1)"
      using evaluate_question_observed [of obs svc db q w g] Inr r by simp
    then show ?thesis
      using Inr r Cons.IH [of "scores @ [s]" w1 g1] by simp
  qed
qed

lemma evaluate_methods_observed:
  "(case evaluate_methods (observed obs svc) db qs ms results (w, g) of
      Inl e \<Rightarrow> Inl e | Inr (r, (w', g')) \<Rightarrow> Inr (r, w')) = evaluate_methods svc db qs ms results w"
proof (induction ms arbitrary: results w g)
  case Nil
  show ?case by simp
next
  case (Cons m ms)
  show ?case
  proof (cases "score_questions (observed obs svc) db qs [] (w, g)")
    case (Inl e)
    have "score_questions svc db qs [] w = Inl e"
      using score_questions_observed [of obs svc db qs "[]" w g] Inl by simp
    then show ?thesis
      using Inl by simp
  next
    case (Inr r)
    obtain scores w1 g1 where r: "r = (scores, (w1, g1))" by (cases r) auto
    have sq: "score_questions svc db qs [] w = Inr (scores, w1)"
      using score_questions_observed [of obs svc db qs "[]" w g] Inr r by simp
    show ?thesis
    proof (cases "mean_score scores")
      case (Inl e)
      then show ?thesis using Inr r sq by simp
    next
      case mean: (Inr a)
      have ih: "(case evaluate_methods (observed obs svc) db qs ms
                   (results(method_value m \<mapsto> a)) (w1, g1) of
                 Inl e \<Rightarrow> Inl e | Inr (r, (w', g')) \<Rightarrow> Inr (r, w'))
               = evaluate_methods svc db qs ms (results(method_value m \<mapsto> a)) w1"
        by (rule Cons.IH)
      show ?thesis
        using Inr r sq mean by (simp add: ih)
    qed
  qed
qed

lemma run_benchmark_observed:
  "(case run_benchmark_with (observed obs svc) text ms db (w, g) of
      Inl e \<Rightarrow> Inl e | Inr (r, (w', g')) \<Rightarrow> Inr (r, w')) = run_benchmark_with svc text ms db w"
proof (cases "chunk_and_save (observed obs svc) text db ms (w, g)")
  case (Inl e)
  have "chunk_and_save svc text db ms w = Inl e"
    using chunk_and_save_observed [of obs svc "text" db ms w g] Inl by simp
  then show ?thesis
    using Inl by (simp add: run_benchmark_with_def)
next
  case (Inr wg)
  obtain w1 g1 where wg: "wg = (w1, g1)" by (cases wg)
  have cs: "chunk_and_save svc text db ms w = Inr w1"
    using chunk_and_save_observed [of obs svc "text" db ms w g] Inr wg by simp
  show ?thesis
  proof (cases "svc_generate_questions svc text 10 w1")
    case (Inl e)
    then show ?thesis
      using Inr wg cs by (simp add: run_benchmark_with_def observed_def observe_def)
  next
    case gq: (Inr qw)
    obtain qs w2 where qw: "qw = (qs, w2)" by (cases qw)
    show ?thesis
      using Inr wg cs gq qw
        evaluate_methods_observed [of obs svc db qs ms "Map.empty" w2 "obs (GenerateQuestions text 10 qs) g1"]
      by (simp add: run_benchmark_with_def observed_def observe_def)
  qed
qed

subsection \<open>The trace of a run that returns\<close>

lemma map_filter_append: "List.map_filter f (xs @ ys) = List.map_filter f xs @ List.map_filter f ys"
  by (simp add: List.map_filter_def)

lemma evaluate_question_logged:
  assumes "evaluate_question (logged svc) db q (w, tr) = Inr (s, (w', tr'))"
  shows "\<exists>cs a. tr' = tr @ [Retrieve q db 3 cs, GenerateAnswer q cs a, EvaluateAnswer a ''correct_answer'' s]"
  using assms
  by (auto simp: evaluate_question_def logged_def observed_def observe_def split: sum.splits prod.splits)

lemma score_questions_logged:
  assumes "score_questions (logged svc) db qs scores (w, tr) = Inr (scores', (w', tr'))"
  shows "\<exists>evs. tr' = tr @ evs
      \<and> map callee evs = concat (replicate (length qs) evaluation_calls)
      \<and> List.map_filter generated evs = []
      \<and> List.map_filter queried evs = map (\<lambda>q. (q, db, 3)) qs
      \<and> List.map_filter saved evs = []
      \<and> List.map_filter chunked evs = []"
  using assms
proof (induction qs arbitrary: scores w tr)
  case Nil
  then show ?case by simp
next
  case (Cons q qs)
  from Cons.prems obtain s w1 tr1 where
    q: "evaluate_question (logged svc) db q (w, tr) = Inr (s, (w1, tr1))"
    and rest: "score_questions (logged svc) db qs (scores @ [s]) (w1, tr1) = Inr (scores', (w', tr'))"
    by (auto split: sum.splits)
  from evaluate_question_logged [OF q] obtain cs a where
    tr1: "tr1 = tr @ [Retrieve q db 3 cs, GenerateAnswer q cs a, EvaluateAnswer a ''correct_answer'' s]"
    by blast
  from Cons.IH [OF rest] obtain evs where
    evs: "tr' = tr1 @ evs"
      "map callee evs = concat (replicate (length qs) evaluation_calls)"
      "List.map_filter generated evs = []"
      "List.map_filter queried evs = map (\<lambda>q. (q, db, 3)) qs"
      "List.map_filter saved evs = []"
      "List.map_filter chunked evs = []"
    by blast
  let ?evs = "[Retrieve q db 3 cs, GenerateAnswer q cs a, EvaluateAnswer a ''correct_answer'' s] @ evs"
  have "tr' = tr @ ?evs" using tr1 evs(1) by simp
  moreover have "map callee ?evs = concat (replicate (length (q # qs)) evaluation_calls)"
    using evs(2) by (simp add: evaluation_calls_def)
  moreover have "List.map_filter generated ?evs = []"
    using evs(3) by simp
  moreover have "List.map_filter queried ?evs = map (\<lambda>q. (q, db, 3)) (q # qs)"
    using evs(4) by simp
  moreover have "List.map_filter saved ?evs = []"
    using evs(5) by simp
  moreover have "List.map_filter chunked ?evs = []"
    using evs(6) by simp
  ultimately show ?case by blast
qed

lemma evaluate_methods_logged:
  assumes "evaluate_methods (logged svc) db qs ms results (w, tr) = Inr (results', (w', tr'))"
  shows "\<exists>evs. tr' = tr @ evs
      \<and> map callee evs = concat (replicate (length ms * length qs) evaluation_calls)
      \<and> List.map_filter generated evs = []
      \<and> List.map_filter queried evs = concat (replicate (length ms) (map (\<lambda>q. (q, db, 3)) qs))
      \<and> List.map_filter saved evs = []
      \<and> List.map_filter chunked evs = []"
  using assms
proof (induction ms arbitrary: results w tr)
  case Nil
  then show ?case by simp
next
  case (Cons m ms)
  from Cons.prems obtain scores w1 tr1 mean where
    sq: "score_questions (logged svc) db qs [] (w, tr) = Inr (scores, (w1, tr1))"
    and rest: "evaluate_methods (logged svc) db qs ms (results(method_value m \<mapsto> mean)) (w1, tr1)
                 = Inr (results', (w', tr'))"
    by (auto split: sum.splits)
  from score_questions_logged [OF sq] obtain evs1 where
    evs1: "tr1 = tr @ evs1"
      "map callee evs1 = concat (replicate (length qs) evaluation_calls)"
      "List.map_filter generated evs1 = []"
      "List.map_filter queried evs1 = map (\<lambda>q. (q, db, 3)) qs"
      "List.map_filter saved evs1 = []"
      "List.map_filter chunked evs1 = []"
    by blast
  from Cons.IH [OF rest] obtain evs2 where
    evs2: "tr' = tr1 @ evs2"
      "map callee evs2 = concat (replicate (length ms * length qs) evaluation_calls)"
      "List.map_filter generated evs2 = []"
      "List.map_filter queried evs2 = concat (replicate (length ms) (map (\<lambda>q. (q, db, 3)) qs))"
      "List.map_filter saved evs2 = []"
      "List.map_filter chunked evs2 = []"
    by blast
  have "tr' = tr @ (evs1 @ evs2)" using evs1(1) evs2(1) by simp
  moreover have "map callee (evs1 @ evs2)
      = concat (replicate (length (m # ms) * length qs) evaluation_calls)"
    using evs1(2) evs2(2) by (simp add: replicate_add)
  moreover have "List.map_filter generated (evs1 @ evs2) = []"
    using evs1(3) evs2(3) by (simp add: map_filter_append)
  moreover have "List.map_filter queried (evs1 @ evs2)
      = concat (replicate (length (m # ms)) (map (\<lambda>q. (q, db, 3)) qs))"
    using evs1(4) evs2(4) by (simp add: map_filter_append)
  moreover have "List.map_filter saved (evs1 @ evs2) = []"
    using evs1(5) evs2(5) by (simp add: map_filter_append)
  moreover have "List.map_filter chunked (evs1 @ evs2) = []"
    using evs1(6) evs2(6) by (simp add: map_filter_append)
  ultimately show ?case by blast
qed

lemma chunk_and_save_logged:
  assumes "chunk_and_save (logged svc) text db ms (w, tr) = Inr (w', tr')"
  shows "\<exists>evs cl. tr' = tr @ evs
      \<and> map callee evs = concat (replicate (length ms) chunking_calls)
      \<and> List.map_filter generated evs = []
      \<and> List.map_filter queried evs = []
      \<and> length cl = length ms
      \<and> List.map_filter chunked evs = map2 (\<lambda>m cs. (text, m, cs)) ms cl
      \<and> List.map_filter saved evs = map (\<lambda>cs. (cs, db)) cl"
  using assms
proof (induction ms arbitrary: w tr)
  case Nil
  then show ?case by simp
next
  case (Cons m ms)
  from Cons.prems obtain cs w1 w2 where
    rest: "chunk_and_save (logged svc) text db ms (w2, tr @ [ChunkText text m cs, SaveChunks cs db])
             = Inr (w', tr')"
    by (auto simp: logged_def observed_def observe_def split: sum.splits prod.splits)
  from Cons.IH [OF rest] obtain evs cl where
    evs: "tr' = (tr @ [ChunkText text m cs, SaveChunks cs db]) @ evs"
      "map callee evs = concat (replicate (length ms) chunking_calls)"
      "List.map_filter generated evs = []"
      "List.map_filter queried evs = []"
      "length cl = length ms"
      "List.map_filter chunked evs = map2 (\<lambda>m cs. (text, m, cs)) ms cl"
      "List.map_filter saved evs = map (\<lambda>cs. (cs, db)) cl"
    by blast
  let ?evs = "[ChunkText text m cs, SaveChunks cs db] @ evs"
  have "tr' = tr @ ?evs" using evs(1) by simp
  moreover have "map callee ?evs = concat (replicate (length (m # ms)) chunking_calls)"
    using evs(2) by (simp add: chunking_calls_def)
  moreover have "List.map_filter generated ?evs = []"
    using evs(3) by simp
  moreover have "List.map_filter queried ?evs = []"
    using evs(4) by simp
  moreover have "length (cs # cl) = length (m # ms)"
    using evs(5) by simp
  moreover have "List.map_filter chunked ?evs = map2 (\<lambda>m cs. (text, m, cs)) (m # ms) (cs # cl)"
    using evs(6) by simp
  moreover have "List.map_filter saved ?evs = map (\<lambda>cs. (cs, db)) (cs # cl)"
    using evs(7) by simp
  ultimately show ?case by blast
qed

lemma run_benchmark_logged:
  assumes "run_benchmark_with (logged svc) text ms db (w, []) = Inr (results, (w', tr))"
  shows "\<exists>qs cl.
        map callee tr = concat (replicate (length ms) chunking_calls) @ [''generate_questions'']
                        @ concat (replicate (length ms * length qs) evaluation_calls)
      \<and> List.map_filter generated tr = [(text, 10, qs)]
      \<and> List.map_filter queried tr = concat (replicate (length ms) (map (\<lambda>q. (q, db, 3)) qs))
      \<and> length cl = length ms
      \<and> List.map_filter chunked tr = map2 (\<lambda>m cs. (text, m, cs)) ms cl
      \<and> List.map_filter saved tr = map (\<lambda>cs. (cs, db)) cl"
proof -
  from assms obtain w1 tr1 qs w2 where
    cs: "chunk_and_save (logged svc) text db ms (w, []) = Inr (w1, tr1)"
    and em: "evaluate_methods (logged svc) db qs ms Map.empty (w2, tr1 @ [GenerateQuestions text 10 qs])
               = Inr (results, (w', tr))"
    by (auto simp: run_benchmark_with_def logged_def observed_def observe_def split: sum.splits prod.splits)
  from chunk_and_save_logged [OF cs] obtain cl where
    evs1: "map callee tr1 = concat (replicate (length ms) chunking_calls)"
      "List.map_filter generated tr1 = []"
      "List.map_filter queried tr1 = []"
      "length cl = length ms"
      "List.map_filter chunked tr1 = map2 (\<lambda>m cs. (text, m, cs)) ms cl"
      "List.map_filter saved tr1 = map (\<lambda>cs. (cs, db)) cl"
    by auto
  from evaluate_methods_logged [OF em] obtain evs2 where
    evs2: "tr = (tr1 @ [GenerateQuestions text 10 qs]) @ evs2"
      "map callee evs2 = concat (replicate (length ms * length qs) evaluation_calls)"
      "List.map_filter generated evs2 = []"
      "List.map_filter queried evs2 = concat (replicate (length ms) (map (\<lambda>q. (q, db, 3)) qs))"
      "List.map_filter saved evs2 = []"
      "List.map_filter chunked evs2 = []"
    by blast
  have "map callee tr = concat (replicate (length ms) chunking_calls) @ [''generate_questions'']
                        @ concat (replicate (length ms * length qs) evaluation_calls)"
    using evs1(1) evs2(1,2) by simp
  moreover have "List.map_filter generated tr = [(text, 10, qs)]"
    using evs1(2) evs2(1,3) by (simp add: map_filter_append)
  moreover have "List.map_filter queried tr = concat (replicate (length ms) (map (\<lambda>q. (q, db, 3)) qs))"
    using evs1(3) evs2(1,4) by (simp add: map_filter_append)
  moreover have "List.map_filter chunked tr = map2 (\<lambda>m cs. (text, m, cs)) ms cl"
    using evs1(5) evs2(1,6) by (simp add: map_filter_append)
  moreover have "List.map_filter saved tr = map (\<lambda>cs. (cs, db)) cl"
    using evs1(6) evs2(1,5) by (simp add: map_filter_append)
  ultimately show ?thesis using evs1(4) by blast
qed

subsection \<open>Scores, means and the table\<close>

lemma sum_list_unit:
  fixes xs :: "real list"
  assumes "list_all (\<lambda>s. 0 \<le> s \<and> s \<le> 1) xs"
  shows "0 \<le> sum_list xs \<and> sum_list xs \<le> real (length xs)"
  using assms by (induction xs) auto

lemma mean_score_unit:
  assumes "list_all (\<lambda>s. 0 \<le> s \<and> s \<le> 1) scores" and "mean_score scores = Inr a"
  shows "0 \<le> a \<and> a \<le> 1"
proof -
  from assms(2) have ne: "scores \<noteq> []" and a: "a = sum_list scores / real (length scores)"
    by (auto simp: mean_score_def split: if_splits)
  have pos: "0 < real (length scores)" using ne by simp
  from sum_list_unit [OF assms(1)] show ?thesis
    unfolding a using pos by (simp add: divide_le_eq)
qed

lemma evaluate_question_grade:
  assumes "evaluate_question svc db q w = Inr (s, w')"
  shows "\<exists>a c w0. svc_evaluate_answer svc a c w0 = Inr (s, w')"
  using assms by (auto simp: evaluate_question_def split: sum.splits prod.splits)

lemma score_questions_unit:
  assumes grades: "\<And>a c w0 s w1. svc_evaluate_answer svc a c w0 = Inr (s, w1) \<Longrightarrow> 0 \<le> s \<and> s \<le> 1"
    and "score_questions svc db qs scores w = Inr (scores', w')"
    and "list_all (\<lambda>s. 0 \<le> s \<and> s \<le> 1) scores"
  shows "list_all (\<lambda>s. 0 \<le> s \<and> s \<le> 1) scores'"
  using assms(2,3)
proof (induction qs arbitrary: scores w)
  case Nil
  then show ?case by simp
next
  case (Cons q qs)
  from Cons.prems(1) obtain s w1 where
    q: "evaluate_question svc db q w = Inr (s, w1)"
    and rest: "score_questions svc db qs (scores @ [s]) w1 = Inr (scores', w')"
    by (auto split: sum.splits)
  from evaluate_question_grade [OF q] grades have "0 \<le> s \<and> s \<le> 1" by blast
  with Cons.prems(2) have "list_all (\<lambda>s. 0 \<le> s \<and> s \<le> 1) (scores @ [s])" by simp
  from Cons.IH [OF rest this] show ?case .
qed

lemma evaluate_methods_unit:
  assumes grades: "\<And>a c w0 s w1. svc_evaluate_answer svc a c w0 = Inr (s, w1) \<Longrightarrow> 0 \<le> s \<and> s \<le> 1"
    and "evaluate_methods svc db qs ms results w = Inr (results', w')"
    and "\<And>k a. results k = Some a \<Longrightarrow> 0 \<le> a \<and> a \<le> 1"
    and "results' k = Some a"
  shows "0 \<le> a \<and> a \<le> 1"
  using assms(2,3,4)
proof (induction ms arbitrary: results w)
  case Nil
  then show ?case by auto
next
  case (Cons m ms)
  from Cons.prems(1) obtain scores w1 mean where
    sq: "score_questions svc db qs [] w = Inr (scores, w1)"
    and mean: "mean_score scores = Inr mean"
    and rest: "evaluate_methods svc db qs ms (results(method_value m \<mapsto> mean)) w1 = Inr (results', w')"
    by (auto split: sum.splits)
  have "list_all (\<lambda>s. 0 \<le> s \<and> s \<le> 1) scores"
    using score_questions_unit [OF grades sq] by simp
  from mean_score_unit [OF this mean] have m01: "0 \<le> mean \<and> mean \<le> 1" .
  have inv: "\<And>k a. (results(method_value m \<mapsto> mean)) k = Some a \<Longrightarrow> 0 \<le> a \<and> a \<le> 1"
    using m01 Cons.prems(2) by (auto split: if_splits)
  from Cons.IH [OF rest inv Cons.prems(3)] show ?case .
qed

lemma evaluate_methods_dom:
  assumes "evaluate_methods svc db qs ms results w = Inr (results', w')"
  shows "dom results' = dom results \<union> method_value ` set ms"
  using assms
proof (induction ms arbitrary: results w)
  case Nil
  then show ?case by simp
next
  case (Cons m ms)
  from Cons.prems obtain mean w1 where
    rest: "evaluate_methods svc db qs ms (results(method_value m \<mapsto> mean)) w1 = Inr (results', w')"
    by (auto split: sum.splits)
  from Cons.IH [OF rest] show ?case by auto
qed

lemma score_questions_append:
  "score_questions svc db (qs1 @ qs2) scores w =
     (case score_questions svc db qs1 scores w of
        Inl e \<Rightarrow> Inl e
      | Inr (scores1, w1) \<Rightarrow> score_questions svc db qs2 scores1 w1)"
  by (induction qs1 arbitrary: scores w) (auto split: sum.splits)

lemma evaluate_methods_append:
  "evaluate_methods svc db qs (ms1 @ ms2) results w =
     (case evaluate_methods svc db qs ms1 results w of
        Inl e \<Rightarrow> Inl e
      | Inr (results1, w1) \<Rightarrow> evaluate_methods svc db qs ms2 results1 w1)"
  by (induction ms1 arbitrary: results w) (auto split: sum.splits)

subsection \<open>The run of the notebook, in closed form\<close>

lemma notebook_chunk_and_save:
  "chunk_and_save (logged notebook_services) text db ms (out, tr) =
     Inr (out @ map (\<lambda>m. ''Saving 3 chunks to '' @ db_value db) ms,
          tr @ concat (map (chunking_events text db) ms))"
  by (induction ms arbitrary: out tr)
     (simp_all add: logged_def observed_def observe_def notebook_services_def
        save_chunks_to_vector_db_def chunk_text_def chunking_events_def)

lemma notebook_evaluate_question:
  "evaluate_question (logged notebook_services) db q (out, tr) =
     Inr (0.85, (out, tr @ evaluation_events db q))"
  by (simp add: evaluate_question_def logged_def observed_def observe_def notebook_services_def
        evaluation_events_def evaluate_answer_def)

lemma notebook_score_questions:
  "score_questions (logged notebook_services) db qs scores (out, tr) =
     Inr (scores @ replicate (length qs) 0.85, (out, tr @ concat (map (evaluation_events db) qs)))"
  by (induction qs arbitrary: scores tr)
     (simp_all add: notebook_evaluate_question replicate_append_same)

lemma mean_score_replicate:
  "0 < n \<Longrightarrow> mean_score (replicate n x) = Inr x"
  by (simp add: mean_score_def sum_list_replicate)

lemma notebook_evaluate_methods:
  assumes "qs \<noteq> []"
  shows "evaluate_methods (logged notebook_services) db qs ms results (out, tr) =
     Inr ((\<lambda>k. if k \<in> method_value ` set ms then Some 0.85 else results k),
          (out, tr @ concat (map (\<lambda>m. concat (map (evaluation_events db) qs)) ms)))"
proof (induction ms arbitrary: results tr)
  case Nil
  show ?case by simp
next
  case (Cons m ms)
  have mean: "mean_score (replicate (length qs) 0.85) = Inr 0.85"
    using assms by (simp add: mean_score_replicate)
  show ?case
    using mean by (auto simp: notebook_score_questions Cons.IH)
qed

lemma notebook_run_logged:
  "run_benchmark_with (logged notebook_services) text ms db (out, tr) =
     Inr ((\<lambda>k. if k \<in> method_value ` set ms then Some 0.85 else None),
          (out @ map (\<lambda>m. ''Saving 3 chunks to '' @ db_value db) ms,
           tr @ concat (map (chunking_events text db) ms)
              @ [GenerateQuestions text 10 (generate_questions text 10)]
              @ concat (map (\<lambda>m. concat (map (evaluation_events db) (generate_questions text 10))) ms)))"
proof -
  have ne: "generate_questions text 10 \<noteq> []"
    by (simp add: generate_questions_def)
  have gq: "svc_generate_questions (logged notebook_services) text 10 (w, g)
      = Inr (generate_questions text 10, (w, g @ [GenerateQuestions text 10 (generate_questions text 10)]))"
    for w g
    by (simp add: logged_def observed_def observe_def notebook_services_def)
  show ?thesis
    by (simp add: run_benchmark_with_def notebook_chunk_and_save gq notebook_evaluate_methods [OF ne])
qed

lemma notebook_run:
  "run_benchmark text ms db out =
     Inr ((\<lambda>k. if k \<in> method_value ` set ms then Some 0.85 else None),
          out @ map (\<lambda>m. ''Saving 3 chunks to '' @ db_value db) ms)"
  using run_benchmark_observed [of "\<lambda>e tr. tr @ [e]" notebook_services "text" ms db out "[]"]
  by (simp add: run_benchmark_def notebook_run_logged [unfolded logged_def])

subsection \<open>The grades of a run and the table\<close>

lemma method_value_inj: "method_value a = method_value b \<longleftrightarrow> a = b"
  by (cases a; cases b) simp_all

lemma mean_score_Inr:
  assumes "mean_score scores = Inr a"
  shows "scores \<noteq> [] \<and> a = sum_list scores / real (length scores)"
  using assms by (auto simp: mean_score_def split: if_splits)

lemma score_questions_grades:
  assumes "score_questions (logged svc) db qs scores (w, tr) = Inr (scores', (w', tr'))"
  shows "\<exists>gs. scores' = scores @ gs \<and> length gs = length qs
      \<and> List.map_filter graded tr' = List.map_filter graded tr @ gs"
  using assms
proof (induction qs arbitrary: scores w tr)
  case Nil
  then show ?case by simp
next
  case (Cons q qs)
  from Cons.prems obtain s w1 tr1 where
    q: "evaluate_question (logged svc) db q (w, tr) = Inr (s, (w1, tr1))"
    and rest: "score_questions (logged svc) db qs (scores @ [s]) (w1, tr1) = Inr (scores', (w', tr'))"
    by (auto split: sum.splits)
  from evaluate_question_logged [OF q] have
    tr1: "List.map_filter graded tr1 = List.map_filter graded tr @ [s]"
    by (auto simp: map_filter_append)
  from Cons.IH [OF rest] obtain gs where
    gs: "scores' = (scores @ [s]) @ gs" "length gs = length qs"
      "List.map_filter graded tr' = List.map_filter graded tr1 @ gs"
    by blast
  have "scores' = scores @ (s # gs)" using gs(1) by simp
  moreover have "length (s # gs) = length (q # qs)" using gs(2) by simp
  moreover have "List.map_filter graded tr' = List.map_filter graded tr @ (s # gs)"
    using gs(3) tr1 by simp
  ultimately show ?case by blast
qed

lemma chunk_and_save_grades:
  assumes "chunk_and_save (logged svc) text db ms (w, tr) = Inr (w', tr')"
  shows "List.map_filter graded tr' = List.map_filter graded tr"
proof -
  from chunk_and_save_logged [OF assms] obtain evs where
    evs: "tr' = tr @ evs" "map callee evs = concat (replicate (length ms) chunking_calls)"
    by blast
  have "List.map_filter graded evs = []" if "set (map callee evs) \<subseteq> set chunking_calls" for evs
    using that
  proof (induction evs)
    case Nil
    show ?case by simp
  next
    case (Cons e evs)
    then show ?case by (cases e) (simp_all add: chunking_calls_def)
  qed
  moreover have "set (map callee evs) \<subseteq> set chunking_calls"
    unfolding evs(2) by auto
  ultimately show ?thesis using evs(1) by (simp add: map_filter_append)
qed

lemma evaluate_methods_grades:
  assumes "evaluate_methods (logged svc) db qs ms results (w, tr) = Inr (results', (w', tr'))"
  shows "\<exists>gs. List.map_filter graded tr' = List.map_filter graded tr @ gs
      \<and> length gs = length ms * length qs
      \<and> (ms \<noteq> [] \<longrightarrow> qs \<noteq> [])
      \<and> (\<forall>k. k \<notin> method_value ` set ms \<longrightarrow> results' k = results k)
      \<and> (\<forall>i<length ms. ms ! i \<notin> set (drop (Suc i) ms) \<longrightarrow>
            results' (method_value (ms ! i))
              = Some (sum_list (strategy_grades (length qs) i gs) / real (length qs)))"
  using assms
proof (induction ms arbitrary: results w tr)
  case Nil
  then show ?case by simp
next
  case (Cons m ms)
  let ?n = "length qs"
  from Cons.prems obtain scores w1 tr1 mean where
    sq: "score_questions (logged svc) db qs [] (w, tr) = Inr (scores, (w1, tr1))"
    and mean: "mean_score scores = Inr mean"
    and rest: "evaluate_methods (logged svc) db qs ms (results(method_value m \<mapsto> mean)) (w1, tr1)
                 = Inr (results', (w', tr'))"
    by (auto split: sum.splits)
  from score_questions_grades [OF sq] have
    len: "length scores = ?n"
    and tr1: "List.map_filter graded tr1 = List.map_filter graded tr @ scores"
    by auto
  from mean_score_Inr [OF mean] have
    ne: "scores \<noteq> []" and mean_eq: "mean = sum_list scores / real ?n"
    using len by auto
  from Cons.IH [OF rest] obtain gs where
    gs: "List.map_filter graded tr' = List.map_filter graded tr1 @ gs"
      "length gs = length ms * ?n"
    and other: "\<forall>k. k \<notin> method_value ` set ms \<longrightarrow> results' k = (results(method_value m \<mapsto> mean)) k"
    and entries: "\<forall>i<length ms. ms ! i \<notin> set (drop (Suc i) ms) \<longrightarrow>
            results' (method_value (ms ! i)) = Some (sum_list (strategy_grades ?n i gs) / real ?n)"
    by blast
  have "List.map_filter graded tr' = List.map_filter graded tr @ (scores @ gs)"
    using gs(1) tr1 by simp
  moreover have "length (scores @ gs) = length (m # ms) * ?n"
    using gs(2) len by simp
  moreover have "m # ms \<noteq> [] \<longrightarrow> qs \<noteq> []"
    using ne len by auto
  moreover have "\<forall>k. k \<notin> method_value ` set (m # ms) \<longrightarrow> results' k = results k"
    using other by auto
  moreover have "\<forall>i<length (m # ms). (m # ms) ! i \<notin> set (drop (Suc i) (m # ms)) \<longrightarrow>
      results' (method_value ((m # ms) ! i))
        = Some (sum_list (strategy_grades ?n i (scores @ gs)) / real ?n)"
  proof (intro allI impI)
    fix i
    assume i: "i < length (m # ms)" and last: "(m # ms) ! i \<notin> set (drop (Suc i) (m # ms))"
    show "results' (method_value ((m # ms) ! i))
        = Some (sum_list (strategy_grades ?n i (scores @ gs)) / real ?n)"
    proof (cases i)
      case 0
      from last 0 have "m \<notin> set ms" by simp
      then have "method_value m \<notin> method_value ` set ms"
        by (auto simp: method_value_inj)
      with other have "results' (method_value m) = Some mean" by simp
      moreover have "strategy_grades ?n 0 (scores @ gs) = scores"
        using len by (simp add: strategy_grades_def)
      ultimately show ?thesis using 0 mean_eq by simp
    next
      case (Suc j)
      from i last Suc have j: "j < length ms" and lastj: "ms ! j \<notin> set (drop (Suc j) ms)"
        by simp_all
      have "strategy_grades ?n (Suc j) (scores @ gs) = strategy_grades ?n j gs"
        using len by (simp add: strategy_grades_def add.commute)
      with entries j lastj Suc show ?thesis by simp
    qed
  qed
  ultimately show ?case by blast
qed

lemma run_benchmark_grades:
  assumes "run_benchmark_with (logged svc) text ms db (w, []) = Inr (results, (w', tr))"
  shows "\<exists>qs. List.map_filter generated tr = [(text, 10, qs)]
      \<and> (ms \<noteq> [] \<longrightarrow> qs \<noteq> [])
      \<and> length (List.map_filter graded tr) = length ms * length qs
      \<and> (\<forall>i<length ms. ms ! i \<notin> set (drop (Suc i) ms) \<longrightarrow>
            results (method_value (ms ! i))
              = Some (sum_list (strategy_grades (length qs) i (List.map_filter graded tr))
                      / real (length qs)))"
proof -
  from assms obtain w1 tr1 qs w2 where
    cs: "chunk_and_save (logged svc) text db ms (w, []) = Inr (w1, tr1)"
    and em: "evaluate_methods (logged svc) db qs ms Map.empty (w2, tr1 @ [GenerateQuestions text 10 qs])
               = Inr (results, (w', tr))"
    by (auto simp: run_benchmark_with_def logged_def observed_def observe_def
        split: sum.splits prod.splits)
  from chunk_and_save_logged [OF cs] have gen1: "List.map_filter generated tr1 = []"
    by auto
  from chunk_and_save_grades [OF cs] have gr1: "List.map_filter graded tr1 = []"
    by simp
  from evaluate_methods_logged [OF em] obtain evs2 where
    evs2: "tr = (tr1 @ [GenerateQuestions text 10 qs]) @ evs2"
      "List.map_filter generated evs2 = []"
    by blast
  from evaluate_methods_grades [OF em] obtain gs where
    gs: "List.map_filter graded tr = List.map_filter graded (tr1 @ [GenerateQuestions text 10 qs]) @ gs"
      "length gs = length ms * length qs"
      "ms \<noteq> [] \<longrightarrow> qs \<noteq> []"
    and entries: "\<forall>i<length ms. ms ! i \<notin> set (drop (Suc i) ms) \<longrightarrow>
            results (method_value (ms ! i))
              = Some (sum_list (strategy_grades (length qs) i gs) / real (length qs))"
    by blast
  have grades: "List.map_filter graded tr = gs"
    using gs(1) gr1 by (simp add: map_filter_append)
  have "List.map_filter generated tr = [(text, 10, qs)]"
    using gen1 evs2 by (simp add: map_filter_append)
  with gs(2,3) entries grades show ?thesis by blast
qed

lemma evaluate_methods_no_questions:
  "ms \<noteq> [] \<Longrightarrow> evaluate_methods svc db [] ms results w = Inl ZeroDivisionError"
  by (cases ms) (simp_all add: mean_score_def)

subsection \<open>A failing step\<close>

lemma evaluate_question_failure:
  "svc_retrieve svc q db 3 w = Inl e \<Longrightarrow> evaluate_question svc db q w = Inl e"
  "svc_retrieve svc q db 3 w = Inr (relevant_chunks, w1) \<Longrightarrow>
     svc_generate_answer svc q relevant_chunks w1 = Inl e \<Longrightarrow> evaluate_question svc db q w = Inl e"
  "svc_retrieve svc q db 3 w = Inr (relevant_chunks, w1) \<Longrightarrow>
     svc_generate_answer svc q relevant_chunks w1 = Inr (answer, w2) \<Longrightarrow>
     svc_evaluate_answer svc answer ''correct_answer'' w2 = Inl e \<Longrightarrow>
     evaluate_question svc db q w = Inl e"
  by (simp_all add: evaluate_question_def)

subsection \<open>Observed runs and the runs they observe\<close>

lemma observed_run_returns:
  assumes "run_benchmark_with svc text ms db w = Inr (results, w')"
  shows "\<exists>g'. run_benchmark_with (observed obs svc) text ms db (w, g) = Inr (results, (w', g'))"
  using run_benchmark_observed [of obs svc "text" ms db w g] assms
  by (auto split: sum.splits prod.splits)

lemma observed_run_returned:
  assumes "run_benchmark_with (observed obs svc) text ms db (w, g) = Inr (results, (w', g'))"
  shows "run_benchmark_with svc text ms db w = Inr (results, w')"
  using run_benchmark_observed [of obs svc "text" ms db w g] assms
  by simp

subsection \<open>The metered cost of a run\<close>

lemma chunk_and_save_metered:
  assumes "chunk_and_save (metered price (logged svc)) text db ms ((w, tr), c) = Inr ((w', tr'), c')"
  shows "c' - sum_list (map price tr') = c - sum_list (map price tr)"
  using assms
proof (induction ms arbitrary: w tr c)
  case Nil
  then show ?case by simp
next
  case (Cons m ms)
  from Cons.prems obtain cs w2 where
    rest: "chunk_and_save (metered price (logged svc)) text db ms
             ((w2, tr @ [ChunkText text m cs, SaveChunks cs db]),
              c + price (ChunkText text m cs) + price (SaveChunks cs db)) = Inr ((w', tr'), c')"
    by (auto simp: metered_def logged_def observed_def observe_def split: sum.splits prod.splits)
  from Cons.IH [OF rest] show ?case by simp
qed

lemma evaluate_question_metered:
  assumes "evaluate_question (metered price (logged svc)) db q ((w, tr), c) = Inr (s, ((w', tr'), c'))"
  shows "c' - sum_list (map price tr') = c - sum_list (map price tr)"
  using assms
  by (auto simp: evaluate_question_def metered_def logged_def observed_def observe_def
      split: sum.splits prod.splits)

lemma score_questions_metered:
  assumes "score_questions (metered price (logged svc)) db qs scores ((w, tr), c)
             = Inr (scores', ((w', tr'), c'))"
  shows "c' - sum_list (map price tr') = c - sum_list (map price tr)"
  using assms
proof (induction qs arbitrary: scores w tr c)
  case Nil
  then show ?case by simp
next
  case (Cons q qs)
  from Cons.prems obtain s w1 tr1 c1 where
    q: "evaluate_question (metered price (logged svc)) db q ((w, tr), c) = Inr (s, ((w1, tr1), c1))"
    and rest: "score_questions (metered price (logged svc)) db qs (scores @ [s]) ((w1, tr1), c1)
                 = Inr (scores', ((w', tr'), c'))"
    by (auto split: sum.splits)
  from evaluate_question_metered [OF q] Cons.IH [OF rest] show ?case by simp
qed

lemma evaluate_methods_metered:
  assumes "evaluate_methods (metered price (logged svc)) db qs ms results ((w, tr), c)
             = Inr (results', ((w', tr'), c'))"
  shows "c' - sum_list (map price tr') = c - sum_list (map price tr)"
  using assms
proof (induction ms arbitrary: results w tr c)
  case Nil
  then show ?case by simp
next
  case (Cons m ms)
  from Cons.prems obtain scores w1 tr1 c1 mean where
    sq: "score_questions (metered price (logged svc)) db qs [] ((w, tr), c)
           = Inr (scores, ((w1, tr1), c1))"
    and rest: "evaluate_methods (metered price (logged svc)) db qs ms
                 (results(method_value m \<mapsto> mean)) ((w1, tr1), c1) = Inr (results', ((w', tr'), c'))"
    by (auto split: sum.splits)
  from score_questions_metered [OF sq] Cons.IH [OF rest] show ?case by simp
qed

lemma run_benchmark_metered:
  assumes "run_benchmark_with (metered price (logged svc)) text ms db ((w, []), c)
             = Inr (results, ((w', tr), c'))"
  shows "c' = c + sum_list (map price tr)"
proof -
  from assms obtain w1 tr1 c1 qs w2 where
    cs: "chunk_and_save (metered price (logged svc)) text db ms ((w, []), c) = Inr ((w1, tr1), c1)"
    and em: "evaluate_methods (metered price (logged svc)) db qs ms Map.empty
               ((w2, tr1 @ [GenerateQuestions text 10 qs]), c1 + price (GenerateQuestions text 10 qs))
               = Inr (results, ((w', tr), c'))"
    by (auto simp: run_benchmark_with_def metered_def logged_def observed_def observe_def
        split: sum.splits prod.splits)
  from chunk_and_save_metered [OF cs] evaluate_methods_metered [OF em] show ?thesis by simp
qed

subsection \<open>Runs evaluated on concrete inputs\<close>

text \<open>
  The two-strategy scenario (strategies \<open>UNSTRUCTURED\<close> and \<open>AI21\<close>, three
  questions, grades 0.9, 0.2, 0.7 and 0.5, 0.5, 0.5), and the notebook's own second cell.
\<close>

lemma scenario_run:
  "run_benchmark_with (scenario_services three_questions) notebook_text [UNSTRUCTURED, AI21] ASTRA
     ([], scenario_grades)
   = Inr ([''unstructured'' \<mapsto> 3 / 5, ''ai21'' \<mapsto> 1 / 2],
          ([''Saving 3 chunks to astra'', ''Saving 3 chunks to astra''], []))"
  by (simp add: run_benchmark_with_def scenario_services_def three_questions_def scenario_grades_def
      evaluate_question_def mean_score_def chunk_text_def save_chunks_to_vector_db_def
      retrieve_relevant_chunks_def generate_answer_def)

lemma notebook_table:
  "(\<lambda>k. if k \<in> method_value ` set notebook_methods then Some (0.85::real) else None)
   = [''unstructured'' \<mapsto> 0.85, ''ai21'' \<mapsto> 0.85, ''custom'' \<mapsto> 0.85]"
  by (auto simp: notebook_methods_def fun_eq_iff)

lemma notebook_sample_run:
  "run_benchmark notebook_text notebook_methods ASTRA []
   = Inr ([''unstructured'' \<mapsto> 0.85, ''ai21'' \<mapsto> 0.85, ''custom'' \<mapsto> 0.85],
          [''Saving 3 chunks to astra'', ''Saving 3 chunks to astra'', ''Saving 3 chunks to astra''])"
  by (simp add: notebook_run notebook_table) (simp add: notebook_methods_def)

section \<open>The claims\<close>

subsection \<open>C1: the scenario of two strategies and three questions\<close>

text \<open>
  The claim reads the table entry as the share of the scores that reach the threshold
  0.5, which would be 2/3 and 1. The driver has no threshold: line 102 divides the sum of
  the scores by their number. In the scenario the entries are 3/5 and 1/2.
\<close>

theorem scenario_accuracy_counterexample:
  "table_entry (run_benchmark_with (scenario_services three_questions) notebook_text
      [UNSTRUCTURED, AI21] ASTRA ([], scenario_grades)) ''unstructured'' \<noteq> Some (2 / 3)
   \<and> table_entry (run_benchmark_with (scenario_services three_questions) notebook_text
      [UNSTRUCTURED, AI21] ASTRA ([], scenario_grades)) ''ai21'' \<noteq> Some 1"
  by (simp add: scenario_run table_entry_def)

text \<open>
  C1, as the code has it. For a run with one document, the strategies \<open>UNSTRUCTURED\<close>
  and \<open>AI21\<close> and three questions, where every retrieval, generation and grading succeeds
  with the grades 0.9, 0.2, 0.7 for the first strategy and 0.5, 0.5, 0.5 for the second, the
  run returns the table in which each strategy has the mean of its scores, the sum of the
  scores divided by the number of attempted questions: 3/5 for the first strategy and 1/2
  for the second.
\<close>

theorem scenario_mean_scores:
  "run_benchmark_with (scenario_services three_questions) notebook_text [UNSTRUCTURED, AI21] ASTRA
     ([], scenario_grades)
   = Inr ([''unstructured'' \<mapsto> 3 / 5, ''ai21'' \<mapsto> 1 / 2],
          ([''Saving 3 chunks to astra'', ''Saving 3 chunks to astra''], []))
   \<and> mean_score [0.9, 0.2, 0.7] = Inr (3 / 5)
   \<and> mean_score [0.5, 0.5, 0.5] = Inr (1 / 2)"
  by (simp add: scenario_run mean_score_def)

subsection \<open>C2: the value reported for a strategy\<close>

text \<open>
  With an empty question list the score list of the first strategy is empty and line 102
  divides by its length: the run ends with \<^verbatim>\<open>ZeroDivisionError\<close> and returns no
  table. There is no value standing for an undefined accuracy.
\<close>

theorem empty_question_list_counterexample:
  "run_benchmark_with (scenario_services []) notebook_text [UNSTRUCTURED] ASTRA ([], [])
   = Inl ZeroDivisionError"
  by (simp add: run_benchmark_with_def scenario_services_def mean_score_def chunk_text_def
      save_chunks_to_vector_db_def)

text \<open>
  C2, as the code has it. For every run with at least one strategy in which the question
  list is empty, so that a strategy has no attempted evaluation, the division of line 102
  is a division by zero: the run ends with \<^verbatim>\<open>ZeroDivisionError\<close> and reports
  nothing. For every run that returns a table, the question list was not empty unless there
  was no strategy, there is one grade per strategy and question, and the value of each
  strategy (at its last place in the list of strategies, where the dictionary entry is
  written last) is the sum of that strategy's grades divided by the number of questions; and
  when every grade that \<^verbatim>\<open>evaluate_answer\<close> returns lies between 0 and 1, so does
  every value of the table.
\<close>

theorem mean_of_grades_or_zero_division:
  "(ms \<noteq> [] \<and> chunk_and_save svc text db ms w = Inr w1
      \<and> svc_generate_questions svc text 10 w1 = Inr ([], w2)
      \<longrightarrow> run_benchmark_with svc text ms db w = Inl ZeroDivisionError)
   \<and> (run_benchmark_with (logged svc) text ms db (w, []) = Inr (results, (w', tr))
      \<longrightarrow> (\<exists>qs. List.map_filter generated tr = [(text, 10, qs)]
             \<and> (ms \<noteq> [] \<longrightarrow> qs \<noteq> [])
             \<and> length (List.map_filter graded tr) = length ms * length qs
             \<and> (\<forall>i<length ms. ms ! i \<notin> set (drop (Suc i) ms) \<longrightarrow>
                   results (method_value (ms ! i))
                     = Some (sum_list (strategy_grades (length qs) i (List.map_filter graded tr))
                             / real (length qs))))
          \<and> ((\<forall>a c w0 s w3. svc_evaluate_answer svc a c w0 = Inr (s, w3) \<longrightarrow> 0 \<le> s \<and> s \<le> 1)
               \<longrightarrow> (\<forall>k a. results k = Some a \<longrightarrow> 0 \<le> a \<and> a \<le> 1)))"
proof (intro conjI impI)
  assume "ms \<noteq> [] \<and> chunk_and_save svc text db ms w = Inr w1
      \<and> svc_generate_questions svc text 10 w1 = Inr ([], w2)"
  then show "run_benchmark_with svc text ms db w = Inl ZeroDivisionError"
    by (simp add: run_benchmark_with_def evaluate_methods_no_questions)
next
  assume "run_benchmark_with (logged svc) text ms db (w, []) = Inr (results, (w', tr))"
  then show "\<exists>qs. List.map_filter generated tr = [(text, 10, qs)]
             \<and> (ms \<noteq> [] \<longrightarrow> qs \<noteq> [])
             \<and> length (List.map_filter graded tr) = length ms * length qs
             \<and> (\<forall>i<length ms. ms ! i \<notin> set (drop (Suc i) ms) \<longrightarrow>
                   results (method_value (ms ! i))
                     = Some (sum_list (strategy_grades (length qs) i (List.map_filter graded tr))
                             / real (length qs)))"
    by (rule run_benchmark_grades)
next
  assume run: "run_benchmark_with (logged svc) text ms db (w, []) = Inr (results, (w', tr))"
    and unit: "\<forall>a c w0 s w3. svc_evaluate_answer svc a c w0 = Inr (s, w3) \<longrightarrow> 0 \<le> s \<and> s \<le> 1"
  from run have "run_benchmark_with svc text ms db w = Inr (results, w')"
    unfolding logged_def by (rule observed_run_returned)
  then obtain qs w2 where
    em: "evaluate_methods svc db qs ms Map.empty w2 = Inr (results, w')"
    by (auto simp: run_benchmark_with_def split: sum.splits)
  have grades: "\<And>a c w0 s w1. svc_evaluate_answer svc a c w0 = Inr (s, w1) \<Longrightarrow> 0 \<le> s \<and> s \<le> 1"
    using unit by blast
  have inv: "\<And>k a. Map.empty k = Some a \<Longrightarrow> 0 \<le> a \<and> a \<le> (1::real)"
    by simp
  show "\<forall>k a. results k = Some a \<longrightarrow> 0 \<le> a \<and> a \<le> 1"
  proof (intro allI impI)
    fix k a
    assume entry: "results k = Some a"
    show "0 \<le> a \<and> a \<le> 1"
      by (rule evaluate_methods_unit [OF grades em inv entry])
  qed
qed

text \<open>
  The run of three strategies on an empty question list ends with the division error;
  the notebook's run on the input of its second cell returns 0.85 for the second strategy,
  the mean of its grades.
\<close>

theorem mean_of_grades_or_zero_division_witness:
  "run_benchmark_with (scenario_services []) notebook_text notebook_methods PINECONE ([], [])
     = Inl ZeroDivisionError
   \<and> (\<exists>results out tr qs.
         run_benchmark_with (logged notebook_services) notebook_text notebook_methods ASTRA ([], [])
           = Inr (results, (out, tr))
         \<and> List.map_filter generated tr = [(notebook_text, 10, qs)]
         \<and> qs \<noteq> []
         \<and> results ''ai21''
             = Some (sum_list (strategy_grades (length qs) 1 (List.map_filter graded tr))
                     / real (length qs))
         \<and> results ''ai21'' = Some 0.85
         \<and> 0 \<le> (0.85::real) \<and> (0.85::real) \<le> 1)"
proof -
  let ?sv = "scenario_services []"
  have ne: "notebook_methods \<noteq> []"
    by (simp add: notebook_methods_def)
  have cs: "chunk_and_save ?sv notebook_text PINECONE notebook_methods ([], [])
      = Inr ([''Saving 3 chunks to pinecone'', ''Saving 3 chunks to pinecone'',
              ''Saving 3 chunks to pinecone''], [])"
    by (simp add: scenario_services_def notebook_methods_def chunk_text_def
        save_chunks_to_vector_db_def)
  have gq: "svc_generate_questions ?sv notebook_text 10
      ([''Saving 3 chunks to pinecone'', ''Saving 3 chunks to pinecone'',
        ''Saving 3 chunks to pinecone''], [])
      = Inr ([], ([''Saving 3 chunks to pinecone'', ''Saving 3 chunks to pinecone'',
                   ''Saving 3 chunks to pinecone''], []))"
    by (simp add: scenario_services_def)
  have zero: "run_benchmark_with ?sv notebook_text notebook_methods PINECONE ([], [])
      = Inl ZeroDivisionError"
    using mean_of_grades_or_zero_division [THEN conjunct1, of notebook_methods ?sv]
      ne cs gq by blast
  obtain results out tr where
    run: "run_benchmark_with (logged notebook_services) notebook_text notebook_methods ASTRA ([], [])
            = Inr (results, (out, tr))"
    and ai21: "results ''ai21'' = Some 0.85"
    using notebook_run_logged [of notebook_text notebook_methods ASTRA "[]" "[]"]
    by (simp add: notebook_methods_def)
  have unit: "\<forall>a c w0 s w3. svc_evaluate_answer notebook_services a c w0 = Inr (s, w3)
      \<longrightarrow> 0 \<le> s \<and> s \<le> 1"
    by (auto simp: notebook_services_def evaluate_answer_def)
  from mean_of_grades_or_zero_division [THEN conjunct2, of notebook_services notebook_text
      notebook_methods ASTRA "[]" results out tr] run unit
  obtain qs where
    gen: "List.map_filter generated tr = [(notebook_text, 10, qs)]"
    and qs: "notebook_methods \<noteq> [] \<longrightarrow> qs \<noteq> []"
    and entries: "\<forall>i<length notebook_methods.
        notebook_methods ! i \<notin> set (drop (Suc i) notebook_methods) \<longrightarrow>
        results (method_value (notebook_methods ! i))
          = Some (sum_list (strategy_grades (length qs) i (List.map_filter graded tr))
                  / real (length qs))"
    and bound: "\<forall>k a. results k = Some a \<longrightarrow> 0 \<le> a \<and> a \<le> 1"
    by blast
  have mean: "results ''ai21''
      = Some (sum_list (strategy_grades (length qs) 1 (List.map_filter graded tr)) / real (length qs))"
    using entries [rule_format, of 1] by (simp add: notebook_methods_def)
  from bound ai21 have "0 \<le> (0.85::real) \<and> (0.85::real) \<le> 1" by blast
  with zero run gen qs ne mean ai21 show ?thesis by blast
qed

subsection \<open>C3: one question set for all strategies\<close>

text \<open>
  C3. In every run that returns, whatever the services do, the calls are, in this order:
  \<^verbatim>\<open>chunk_text\<close> and \<^verbatim>\<open>save_chunks_to_vector_db\<close> once per strategy, then
  \<^verbatim>\<open>generate_questions\<close> exactly once, on the document and with
  \<^verbatim>\<open>num_questions=10\<close>, then the three evaluation calls once per strategy and question.
  The questions put to the retrieval are, for each strategy in turn, the list \<open>qs\<close> that
  this one call returned: the same questions, in the same order, for every strategy.
\<close>

theorem questions_generated_once_and_shared:
  assumes "run_benchmark_with (logged svc) text ms db (w, []) = Inr (results, (w', tr))"
  shows "\<exists>qs. map callee tr = concat (replicate (length ms) chunking_calls)
                  @ [''generate_questions'']
                  @ concat (replicate (length ms * length qs) evaluation_calls)
      \<and> List.map_filter generated tr = [(text, 10, qs)]
      \<and> map fst (List.map_filter queried tr) = concat (replicate (length ms) qs)"
proof -
  from run_benchmark_logged [OF assms] obtain qs where
    calls: "map callee tr = concat (replicate (length ms) chunking_calls)
              @ [''generate_questions'']
              @ concat (replicate (length ms * length qs) evaluation_calls)"
    and gen: "List.map_filter generated tr = [(text, 10, qs)]"
    and qu: "List.map_filter queried tr = concat (replicate (length ms) (map (\<lambda>q. (q, db, 3)) qs))"
    by blast
  have "map fst (List.map_filter queried tr) = concat (replicate (length ms) qs)"
    unfolding qu by (simp add: map_concat o_def)
  with calls gen show ?thesis by blast
qed

text \<open>
  The run of the notebook on the input of its second cell is such a run.
\<close>

theorem questions_generated_once_and_shared_witness:
  "\<exists>qs. map callee (trace_of (run_benchmark_with (logged notebook_services) notebook_text
              notebook_methods ASTRA ([], [])))
          = concat (replicate (length notebook_methods) chunking_calls)
            @ [''generate_questions'']
            @ concat (replicate (length notebook_methods * length qs) evaluation_calls)
      \<and> List.map_filter generated (trace_of (run_benchmark_with (logged notebook_services)
              notebook_text notebook_methods ASTRA ([], [])))
          = [(notebook_text, 10, qs)]
      \<and> map fst (List.map_filter queried (trace_of (run_benchmark_with (logged notebook_services)
              notebook_text notebook_methods ASTRA ([], []))))
          = concat (replicate (length notebook_methods) qs)"
proof -
  obtain results out tr where
    run: "run_benchmark_with (logged notebook_services) notebook_text notebook_methods ASTRA ([], [])
            = Inr (results, (out, tr))"
    using notebook_run_logged [of notebook_text notebook_methods ASTRA "[]" "[]"] by blast
  from questions_generated_once_and_shared [OF run] show ?thesis
    by (simp add: run trace_of_def)
qed

subsection \<open>C4: where the chunks are stored and searched\<close>

text \<open>
  In the notebook's run over two strategies both chunk lists are saved to the one store
  \<open>ASTRA\<close>, with nothing that tells them apart, and the retrieval made while the first
  strategy is evaluated returns \<^verbatim>\<open>"relevant chunk 1"\<close>, which neither strategy
  produced.
\<close>

theorem shared_store_counterexample:
  "List.map_filter saved (trace_of (run_benchmark_with (logged notebook_services)
        notebook_text [UNSTRUCTURED, AI21] ASTRA ([], [])))
     = [([''chunk1'', ''chunk2'', ''chunk3''], ASTRA), ([''chunk1'', ''chunk2'', ''chunk3''], ASTRA)]
   \<and> Retrieve ''Question 1?'' ASTRA 3 [''relevant chunk 1'', ''relevant chunk 2'']
       \<in> set (trace_of (run_benchmark_with (logged notebook_services)
            notebook_text [UNSTRUCTURED, AI21] ASTRA ([], [])))
   \<and> ''relevant chunk 1'' \<notin> set (chunk_text notebook_text UNSTRUCTURED)
   \<and> ''relevant chunk 1'' \<notin> set (chunk_text notebook_text AI21)"
  by (simp add: notebook_run_logged trace_of_def chunking_events_def evaluation_events_def
      chunk_text_def generate_questions_def retrieve_relevant_chunks_def map_filter_append)

text \<open>
  C4, as the code has it. In every run that returns, the chunk list obtained for each
  strategy is passed, in the order of the strategies, to \<^verbatim>\<open>save_chunks_to_vector_db\<close>
  together with the one \<^verbatim>\<open>vector_db\<close> given to the run, without a document or a
  strategy identifier; and the retrievals made while a strategy is evaluated are the same
  for every strategy: one per question, on that same \<^verbatim>\<open>vector_db\<close>, with
  \<^verbatim>\<open>top_k\<close> 3. The driver puts no condition on what a retrieval returns.
\<close>

theorem one_store_for_all_strategies:
  assumes "run_benchmark_with (logged svc) text ms db (w, []) = Inr (results, (w', tr))"
  shows "\<exists>qs cl. length cl = length ms
      \<and> List.map_filter chunked tr = map2 (\<lambda>m cs. (text, m, cs)) ms cl
      \<and> List.map_filter saved tr = map (\<lambda>cs. (cs, db)) cl
      \<and> List.map_filter queried tr = concat (replicate (length ms) (map (\<lambda>q. (q, db, 3)) qs))"
  using run_benchmark_logged [OF assms] by blast

text \<open>
  The run of the notebook over two strategies on the store \<open>PINECONE\<close>.
\<close>

theorem one_store_for_all_strategies_witness:
  "\<exists>qs cl. length cl = length [UNSTRUCTURED, AI21]
      \<and> List.map_filter chunked (trace_of (run_benchmark_with (logged notebook_services)
            notebook_text [UNSTRUCTURED, AI21] PINECONE ([], [])))
          = map2 (\<lambda>m cs. (notebook_text, m, cs)) [UNSTRUCTURED, AI21] cl
      \<and> List.map_filter saved (trace_of (run_benchmark_with (logged notebook_services)
            notebook_text [UNSTRUCTURED, AI21] PINECONE ([], [])))
          = map (\<lambda>cs. (cs, PINECONE)) cl
      \<and> List.map_filter queried (trace_of (run_benchmark_with (logged notebook_services)
            notebook_text [UNSTRUCTURED, AI21] PINECONE ([], [])))
          = concat (replicate (length [UNSTRUCTURED, AI21]) (map (\<lambda>q. (q, PINECONE, 3)) qs))"
proof -
  obtain results out tr where
    run: "run_benchmark_with (logged notebook_services) notebook_text [UNSTRUCTURED, AI21] PINECONE ([], [])
            = Inr (results, (out, tr))"
    using notebook_run_logged [of notebook_text "[UNSTRUCTURED, AI21]" PINECONE "[]" "[]"] by blast
  from one_store_for_all_strategies [OF run] show ?thesis
    by (simp only: run trace_of_def sum.case prod.case)
qed

subsection \<open>C5: the number of questions\<close>

text \<open>
  Asked for ten questions, as the driver asks, the generator returns three and does not
  fail.
\<close>

theorem too_few_questions_counterexample:
  "int (length (generate_questions notebook_text 10)) < 10
   \<and> svc_generate_questions notebook_services notebook_text 10 []
       = Inr (generate_questions notebook_text 10, [])"
  by (simp add: generate_questions_def notebook_services_def)

text \<open>
  C5, as the code has it. For every document and every requested count the question
  generator returns the same three distinct question strings, which carry neither an
  identifier nor a ground-truth answer, and it never fails; the requested count is not
  looked at.
\<close>

theorem generate_questions_fixed:
  "generate_questions text n = [''Question 1?'', ''Question 2?'', ''Question 3?'']
   \<and> distinct (generate_questions text n)
   \<and> length (generate_questions text n) = 3
   \<and> svc_generate_questions notebook_services text n out = Inr (generate_questions text n, out)"
  by (simp add: generate_questions_def notebook_services_def)

subsection \<open>C6: a failing evaluation step\<close>

text \<open>
  When the retrieval or the answer generation fails on the second question of the first
  strategy, or the grader does, the run ends with that step's exception: there is no table,
  hence no entry for either strategy, and no record of the failure.
\<close>

theorem step_failure_counterexample:
  "run_benchmark_with (faulty_services [''Question 2?''] []) notebook_text [UNSTRUCTURED, AI21] ASTRA []
     = Inl (ServiceError ''RetrievalError'')
   \<and> run_benchmark_with (faulty_services [] [''Question 2?'']) notebook_text [UNSTRUCTURED, AI21] ASTRA []
     = Inl (ServiceError ''GenerationError'')
   \<and> run_benchmark_with (scenario_services three_questions) notebook_text [UNSTRUCTURED, AI21] ASTRA
     ([], [Inr 0.9, Inl (ServiceError ''GradingError'')])
     = Inl (ServiceError ''GradingError'')"
  by (simp add: run_benchmark_with_def faulty_services_def scenario_services_def three_questions_def
      evaluate_question_def mean_score_def chunk_text_def save_chunks_to_vector_db_def
      generate_questions_def retrieve_relevant_chunks_def generate_answer_def evaluate_answer_def)

text \<open>
  C6, as the code has it. A failure of the retrieval, of the answer generation or of the
  grading for a question \<open>q\<close> of a strategy \<open>m\<close> is not caught: when everything before it
  in the run succeeded, the run ends with the exception \<open>e\<close> of the failing step, whatever
  strategies \<open>ms2\<close> and questions \<open>qs2\<close> remain, and returns no table.
\<close>

theorem failure_aborts_run:
  assumes "chunk_and_save svc text db (ms1 @ m # ms2) w = Inr w1"
    and "svc_generate_questions svc text 10 w1 = Inr (qs1 @ q # qs2, w2)"
    and "evaluate_methods svc db (qs1 @ q # qs2) ms1 Map.empty w2 = Inr (results, w3)"
    and "score_questions svc db qs1 [] w3 = Inr (scores, w4)"
  shows "(svc_retrieve svc q db 3 w4 = Inl e
            \<longrightarrow> run_benchmark_with svc text (ms1 @ m # ms2) db w = Inl e)
       \<and> (svc_retrieve svc q db 3 w4 = Inr (relevant_chunks, w5)
            \<and> svc_generate_answer svc q relevant_chunks w5 = Inl e
            \<longrightarrow> run_benchmark_with svc text (ms1 @ m # ms2) db w = Inl e)
       \<and> (svc_retrieve svc q db 3 w4 = Inr (relevant_chunks, w5)
            \<and> svc_generate_answer svc q relevant_chunks w5 = Inr (answer, w6)
            \<and> svc_evaluate_answer svc answer ''correct_answer'' w6 = Inl e
            \<longrightarrow> run_benchmark_with svc text (ms1 @ m # ms2) db w = Inl e)"
proof -
  have abort: "run_benchmark_with svc text (ms1 @ m # ms2) db w = Inl e"
    if "evaluate_question svc db q w4 = Inl e"
  proof -
    have "score_questions svc db (qs1 @ q # qs2) [] w3 = Inl e"
      using assms(4) that by (simp add: score_questions_append)
    then have "evaluate_methods svc db (qs1 @ q # qs2) (ms1 @ m # ms2) Map.empty w2 = Inl e"
      using assms(3) by (simp add: evaluate_methods_append)
    then show ?thesis
      using assms(1,2) by (simp add: run_benchmark_with_def)
  qed
  show ?thesis
    using abort evaluate_question_failure [of svc q db w4] by blast
qed

text \<open>
  Three runs: the retrieval fails on the second question of the first strategy, the
  answer generation on its third question, the grader on the first question of the second
  strategy, after the first strategy was evaluated in full.
\<close>

theorem failure_aborts_run_witness:
  "run_benchmark_with (faulty_services [''Question 2?''] []) notebook_text
       ([] @ UNSTRUCTURED # [AI21]) PINECONE []
     = Inl (ServiceError ''RetrievalError'')
   \<and> run_benchmark_with (faulty_services [] [''Question 3?'']) notebook_text
       ([] @ UNSTRUCTURED # [AI21]) PINECONE []
     = Inl (ServiceError ''GenerationError'')
   \<and> run_benchmark_with (scenario_services three_questions) notebook_text
       ([UNSTRUCTURED] @ AI21 # []) ASTRA ([], failing_grades)
     = Inl (ServiceError ''GradingError'')"
proof -
  let ?out = "[''Saving 3 chunks to pinecone'', ''Saving 3 chunks to pinecone'']"
  let ?rel = "[''relevant chunk 1'', ''relevant chunk 2'']"
  let ?ans = "''Generated answer based on context''"
  \<comment> \<open>the retrieval fails on the second question of the first strategy\<close>
  let ?r = "faulty_services [''Question 2?''] []"
  have r1: "chunk_and_save ?r notebook_text PINECONE ([] @ UNSTRUCTURED # [AI21]) [] = Inr ?out"
    by (simp add: faulty_services_def chunk_text_def save_chunks_to_vector_db_def)
  have r2: "svc_generate_questions ?r notebook_text 10 ?out
      = Inr ([''Question 1?''] @ ''Question 2?'' # [''Question 3?''], ?out)"
    by (simp add: faulty_services_def generate_questions_def)
  have r3: "evaluate_methods ?r PINECONE ([''Question 1?''] @ ''Question 2?'' # [''Question 3?''])
      [] Map.empty ?out = Inr (Map.empty, ?out)"
    by simp
  have r4: "score_questions ?r PINECONE [''Question 1?''] [] ?out = Inr ([0.85], ?out)"
    by (simp add: faulty_services_def evaluate_question_def evaluate_answer_def)
  have r5: "svc_retrieve ?r ''Question 2?'' PINECONE 3 ?out = Inl (ServiceError ''RetrievalError'')"
    by (simp add: faulty_services_def)
  have retrieval: "run_benchmark_with ?r notebook_text ([] @ UNSTRUCTURED # [AI21]) PINECONE []
      = Inl (ServiceError ''RetrievalError'')"
    using failure_aborts_run [OF r1 r2 r3 r4, THEN conjunct1] r5 by blast
  \<comment> \<open>the answer generation fails on the third question of the first strategy\<close>
  let ?g = "faulty_services [] [''Question 3?'']"
  have g1: "chunk_and_save ?g notebook_text PINECONE ([] @ UNSTRUCTURED # [AI21]) [] = Inr ?out"
    by (simp add: faulty_services_def chunk_text_def save_chunks_to_vector_db_def)
  have g2: "svc_generate_questions ?g notebook_text 10 ?out
      = Inr ([''Question 1?'', ''Question 2?''] @ ''Question 3?'' # [], ?out)"
    by (simp add: faulty_services_def generate_questions_def)
  have g3: "evaluate_methods ?g PINECONE ([''Question 1?'', ''Question 2?''] @ ''Question 3?'' # [])
      [] Map.empty ?out = Inr (Map.empty, ?out)"
    by simp
  have g4: "score_questions ?g PINECONE [''Question 1?'', ''Question 2?''] [] ?out
      = Inr ([0.85, 0.85], ?out)"
    by (simp add: faulty_services_def evaluate_question_def evaluate_answer_def)
  have g5: "svc_retrieve ?g ''Question 3?'' PINECONE 3 ?out = Inr (?rel, ?out)
      \<and> svc_generate_answer ?g ''Question 3?'' ?rel ?out = Inl (ServiceError ''GenerationError'')"
    by (simp add: faulty_services_def retrieve_relevant_chunks_def)
  have generation: "run_benchmark_with ?g notebook_text ([] @ UNSTRUCTURED # [AI21]) PINECONE []
      = Inl (ServiceError ''GenerationError'')"
    using failure_aborts_run [OF g1 g2 g3 g4, THEN conjunct2, THEN conjunct1] g5 by blast
  \<comment> \<open>the grading fails on the first question of the second strategy\<close>
  let ?s = "scenario_services three_questions"
  let ?lines = "[''Saving 3 chunks to astra'', ''Saving 3 chunks to astra'']"
  let ?left = "[Inl (ServiceError ''GradingError''), Inr 0.5, Inr 0.5] :: (exn + real) list"
  have s1: "chunk_and_save ?s notebook_text ASTRA ([UNSTRUCTURED] @ AI21 # []) ([], failing_grades)
      = Inr (?lines, failing_grades)"
    by (simp add: scenario_services_def chunk_text_def save_chunks_to_vector_db_def)
  have s2: "svc_generate_questions ?s notebook_text 10 (?lines, failing_grades)
      = Inr ([] @ ''Question 1?'' # [''Question 2?'', ''Question 3?''], (?lines, failing_grades))"
    by (simp add: scenario_services_def three_questions_def)
  have s3: "evaluate_methods ?s ASTRA ([] @ ''Question 1?'' # [''Question 2?'', ''Question 3?''])
      [UNSTRUCTURED] Map.empty (?lines, failing_grades)
      = Inr ([''unstructured'' \<mapsto> 3 / 5], (?lines, ?left))"
    by (simp add: scenario_services_def failing_grades_def evaluate_question_def mean_score_def
        retrieve_relevant_chunks_def generate_answer_def)
  have s4: "score_questions ?s ASTRA [] [] (?lines, ?left) = Inr ([], (?lines, ?left))"
    by simp
  have s5: "svc_retrieve ?s ''Question 1?'' ASTRA 3 (?lines, ?left) = Inr (?rel, (?lines, ?left))
      \<and> svc_generate_answer ?s ''Question 1?'' ?rel (?lines, ?left) = Inr (?ans, (?lines, ?left))
      \<and> svc_evaluate_answer ?s ?ans ''correct_answer'' (?lines, ?left)
          = Inl (ServiceError ''GradingError'')"
    by (simp add: scenario_services_def retrieve_relevant_chunks_def generate_answer_def)
  have grading: "run_benchmark_with ?s notebook_text ([UNSTRUCTURED] @ AI21 # []) ASTRA
      ([], failing_grades) = Inl (ServiceError ''GradingError'')"
    using failure_aborts_run [OF s1 s2 s3 s4, THEN conjunct2, THEN conjunct2] s5 by blast
  from retrieval generation grading show ?thesis by blast
qed

subsection \<open>C7: the chunks and the document\<close>

text \<open>
  For the text of the notebook's second cell the first chunk is \<^verbatim>\<open>"chunk1"\<close>,
  which does not occur in the text, and the chunks put together are not the text.
\<close>

theorem chunks_not_from_document_counterexample:
  "''chunk1'' \<in> set (chunk_text notebook_text UNSTRUCTURED)
   \<and> \<not> sublist ''chunk1'' notebook_text
   \<and> concat (chunk_text notebook_text UNSTRUCTURED) \<noteq> notebook_text"
  by (simp add: chunk_text_def notebook_text_def sublist_Cons_right prefix_Cons)

text \<open>
  C7, as the code has it. For every document and every chunking strategy the chunk
  sequence is not empty: it is the fixed list of the three placeholder chunks, whose
  concatenation is \<^verbatim>\<open>"chunk1chunk2chunk3"\<close> whatever the document.
\<close>

theorem chunk_text_fixed_nonempty:
  "chunk_text text method \<noteq> []
   \<and> chunk_text text method = [''chunk1'', ''chunk2'', ''chunk3'']
   \<and> concat (chunk_text text method) = ''chunk1chunk2chunk3''"
  by (simp add: chunk_text_def)

subsection \<open>C8: the table returned\<close>

text \<open>
  The table maps a strategy to one number. Charging every call of the notebook's run 1 or
  2 gives the metered totals 34 and 68 and the same table, in which every strategy has 0.85:
  no entry of the table is a cost.
\<close>

theorem table_has_no_cost_counterexample:
  "run_benchmark_with (metered (flat_price 1) notebook_services) notebook_text notebook_methods ASTRA
     ([], 0)
   = Inr ([''unstructured'' \<mapsto> 0.85, ''ai21'' \<mapsto> 0.85, ''custom'' \<mapsto> 0.85],
          ([''Saving 3 chunks to astra'', ''Saving 3 chunks to astra'', ''Saving 3 chunks to astra''], 34))
   \<and> run_benchmark_with (metered (flat_price 2) notebook_services) notebook_text notebook_methods ASTRA
     ([], 0)
   = Inr ([''unstructured'' \<mapsto> 0.85, ''ai21'' \<mapsto> 0.85, ''custom'' \<mapsto> 0.85],
          ([''Saving 3 chunks to astra'', ''Saving 3 chunks to astra'', ''Saving 3 chunks to astra''], 68))"
  by (simp add: run_benchmark_with_def metered_def observed_def observe_def flat_price_def
      notebook_services_def notebook_methods_def notebook_text_def
      evaluate_question_def mean_score_def chunk_text_def save_chunks_to_vector_db_def
      generate_questions_def retrieve_relevant_chunks_def generate_answer_def evaluate_answer_def)

text \<open>
  C8, as the code has it. For every run that returns, with every call charged a price, the
  final output is a table whose keys are exactly the value strings of the strategies under
  test, and the value of each strategy (at its last place in the list of strategies) is an
  accuracy value only: the sum of that strategy's grades divided by the number of
  questions. The metered cost of the run is the sum of the prices of its calls, and nothing
  of it enters the table: the run without the meter returns the same table.
\<close>

theorem table_of_mean_scores_only:
  assumes "run_benchmark_with (metered price (logged svc)) text ms db ((w, []), c)
             = Inr (results, ((w', tr), c'))"
  shows "dom results = method_value ` set ms
    \<and> (\<exists>qs. List.map_filter generated tr = [(text, 10, qs)]
          \<and> (ms \<noteq> [] \<longrightarrow> qs \<noteq> [])
          \<and> length (List.map_filter graded tr) = length ms * length qs
          \<and> (\<forall>i<length ms. ms ! i \<notin> set (drop (Suc i) ms) \<longrightarrow>
                results (method_value (ms ! i))
                  = Some (sum_list (strategy_grades (length qs) i (List.map_filter graded tr))
                          / real (length qs))))
    \<and> c' = c + sum_list (map price tr)
    \<and> run_benchmark_with (logged svc) text ms db (w, []) = Inr (results, (w', tr))"
proof -
  from assms obtain qs w2 where
    em: "evaluate_methods (metered price (logged svc)) db qs ms Map.empty w2
           = Inr (results, ((w', tr), c'))"
    by (auto simp: run_benchmark_with_def split: sum.splits)
  have keys: "dom results = method_value ` set ms"
    using evaluate_methods_dom [OF em] by simp
  have unmetered: "run_benchmark_with (logged svc) text ms db (w, []) = Inr (results, (w', tr))"
    using assms unfolding metered_def by (rule observed_run_returned)
  from keys run_benchmark_grades [OF unmetered] run_benchmark_metered [OF assms] unmetered
  show ?thesis by blast
qed

text \<open>
  The notebook's run over two strategies with every call charged 3.
\<close>

theorem table_of_mean_scores_only_witness:
  "\<exists>results out tr qs.
      run_benchmark_with (logged notebook_services) notebook_text [UNSTRUCTURED, AI21] PINECONE ([], [])
        = Inr (results, (out, tr))
      \<and> dom results = method_value ` set [UNSTRUCTURED, AI21]
      \<and> List.map_filter generated tr = [(notebook_text, 10, qs)]
      \<and> results ''unstructured''
          = Some (sum_list (strategy_grades (length qs) 0 (List.map_filter graded tr))
                  / real (length qs))
      \<and> results ''ai21''
          = Some (sum_list (strategy_grades (length qs) 1 (List.map_filter graded tr))
                  / real (length qs))"
proof -
  obtain results out tr where
    run: "run_benchmark_with (logged notebook_services) notebook_text [UNSTRUCTURED, AI21] PINECONE
            ([], []) = Inr (results, (out, tr))"
    using notebook_run_logged [of notebook_text "[UNSTRUCTURED, AI21]" PINECONE "[]" "[]"] by blast
  from observed_run_returns [OF run, of "\<lambda>e cost. cost + flat_price 3 e" 0] obtain c' where
    metered_run: "run_benchmark_with (metered (flat_price 3) (logged notebook_services)) notebook_text
        [UNSTRUCTURED, AI21] PINECONE (([], []), 0) = Inr (results, ((out, tr), c'))"
    by (auto simp: metered_def)
  from table_of_mean_scores_only [OF metered_run] obtain qs where
    keys: "dom results = method_value ` set [UNSTRUCTURED, AI21]"
    and gen: "List.map_filter generated tr = [(notebook_text, 10, qs)]"
    and entries: "\<forall>i<length [UNSTRUCTURED, AI21].
        [UNSTRUCTURED, AI21] ! i \<notin> set (drop (Suc i) [UNSTRUCTURED, AI21]) \<longrightarrow>
        results (method_value ([UNSTRUCTURED, AI21] ! i))
          = Some (sum_list (strategy_grades (length qs) i (List.map_filter graded tr))
                  / real (length qs))"
    by blast
  from entries have "results ''unstructured''
      = Some (sum_list (strategy_grades (length qs) 0 (List.map_filter graded tr)) / real (length qs))"
    by force
  moreover from entries have "results ''ai21''
      = Some (sum_list (strategy_grades (length qs) 1 (List.map_filter graded tr)) / real (length qs))"
    by force
  ultimately show ?thesis using run keys gen by blast
qed

subsection \<open>C10: the chunks do not depend on the method\<close>

text \<open>
  C10. For every input text and any two chunking methods, \<^verbatim>\<open>chunk_text\<close> returns
  the same list: the output depends neither on the method nor on the text. So in
  every run of the notebook the chunk list obtained for each strategy, in the order of
  the strategies, is the same list of three placeholder chunks.
\<close>

theorem chunk_text_independent_of_method:
  "chunk_text text m1 = chunk_text text m2
   \<and> chunk_text text m1 = chunk_text text' m2
   \<and> map (snd \<circ> snd) (List.map_filter chunked
        (trace_of (run_benchmark_with (logged notebook_services) text ms db (out, []))))
     = replicate (length ms) [''chunk1'', ''chunk2'', ''chunk3'']"
proof -
  have same: "chunk_text t m = [''chunk1'', ''chunk2'', ''chunk3'']" for t m
    by (simp add: chunk_text_def)
  have chunked_chunking: "List.map_filter chunked (concat (map (chunking_events text db) ms))
      = map (\<lambda>m. (text, m, chunk_text text m)) ms"
    by (induction ms) (simp_all add: chunking_events_def map_filter_append)
  have chunked_evaluation: "List.map_filter chunked (concat (map (evaluation_events db) qs)) = []" for qs
    by (induction qs) (simp_all add: evaluation_events_def map_filter_append)
  have chunked_methods: "List.map_filter chunked
      (concat (map (\<lambda>m. concat (map (evaluation_events db) qs)) ms)) = []" for qs
    by (induction ms) (simp_all add: chunked_evaluation map_filter_append)
  have "List.map_filter chunked
      (trace_of (run_benchmark_with (logged notebook_services) text ms db (out, [])))
      = map (\<lambda>m. (text, m, chunk_text text m)) ms"
    by (simp add: notebook_run_logged trace_of_def map_filter_append chunked_chunking chunked_methods)
  then show ?thesis
    by (simp add: same map_replicate_const o_def)
qed

end
